theory Spec2Isabelle
  imports Main "HOL-Library.Word" "HOL-Library.Sublist"
begin

section \<open>Values shared by the service (main.py) and the client (app.py)\<close>

text \<open>
  A Python \<open>str\<close> is a sequence of Unicode code points and \<open>bytes\<close> a sequence of
  octets. A string literal of the source is written \<open>ascii ''...''\<close>; the few non-ASCII
  characters of the source's literals are given by their code point.
\<close>

type_synonym str = "nat list"
type_synonym bytes = "8 word list"

definition ascii :: "string \<Rightarrow> str" where
  "ascii = map of_char"

text \<open>A raised \<open>Exception\<close> is represented by \<open>str(e)\<close>, the only thing the source reads of it.\<close>

type_synonym exn = str

text \<open>The dictionaries \<open>{"role": ..., "content": ...}\<close> of both files.\<close>

record chat_message =
  role :: str
  content :: str

text \<open>\<open>xs[-n:]\<close> for a positive literal \<open>n\<close>: the last \<open>n\<close> items, or all of them when there are fewer.\<close>

definition last_n :: "nat \<Rightarrow> 'a list \<Rightarrow> 'a list" where
  "last_n n xs = drop (length xs - n) xs"

text \<open>\<open>xs[0]\<close>, which raises IndexError on an empty list.\<close>

definition first_item :: "'a list \<Rightarrow> exn + 'a" where
  "first_item xs = (case xs of [] \<Rightarrow> Inl (ascii ''list index out of range'') | x # _ \<Rightarrow> Inr x)"

section \<open>The orchestration service (main.py)\<close>

text \<open>The pydantic model \<open>ChatRequest\<close>; \<open>TextRequest\<close> has the single field \<open>text\<close> and is its value.\<close>

record ChatRequest =
  message :: str
  conversation_history :: "chat_message list"

text \<open>
  The external collaborators of the service. Each provider call either raises or returns:
  \<^item> \<open>transcribe_file\<close> is \<open>dg_client.listen.prerecorded.v("1").transcribe_file\<close>; of its
    response the source reads \<open>results.channels[i].alternatives[j].transcript\<close>, so a
    response is the list of channels, each the list of its alternatives' transcripts;
  \<^item> \<open>completions_create\<close> is \<open>groq_client.chat.completions.create\<close>, as a function of
    the \<open>messages\<close> argument (the other arguments are constants); a completion is the list
    of \<open>choices[i].message.content\<close>;
  \<^item> \<open>speak_save\<close> is \<open>dg_client.speak.v("1").save\<close> on the text to speak; what it returns
    here is the content of the scratch file it wrote, which the source reads back;
  \<^item> \<open>b64encode\<close> is \<open>base64.b64encode(...).decode("utf-8")\<close> of the standard library.
\<close>

record providers =
  transcribe_file :: "bytes \<Rightarrow> exn + str list list"
  completions_create :: "chat_message list \<Rightarrow> exn + str list"
  speak_save :: "str \<Rightarrow> exn + bytes"
  b64encode :: "bytes \<Rightarrow> str"

text \<open>
  What an endpoint sent to the providers, in order. The \<open>print\<close> calls of the endpoints
  are left out, and the scratch file of the synthesis is taken to be created, read and
  removed without error.
\<close>

datatype provider_call =
    Transcribe_file bytes
  | Completions_create "chat_message list"
  | Speak_save str

datatype json = JStr str | JBool bool

type_synonym dict = "(string \<times> json) list"

text \<open>
  What leaves an endpoint: the returned dictionary (HTTP 200), or the \<open>HTTPException\<close> it
  raised, with \<open>status_code\<close> and \<open>detail\<close>.
\<close>

datatype http_reply = Ok_200 dict | HTTPException nat str

record served =
  reply :: http_reply
  calls :: "provider_call list"

text \<open>\<open>except Exception as e: raise HTTPException(status_code=500, detail=f"Error: {str(e)}")\<close>\<close>

definition except_Exception :: "exn + dict \<Rightarrow> http_reply" where
  "except_Exception r =
     (case r of Inl e \<Rightarrow> HTTPException 500 (ascii ''Error: '' @ e) | Inr d \<Rightarrow> Ok_200 d)"

text \<open>\<open>response.results.channels[0].alternatives[0].transcript\<close>\<close>

definition first_transcript :: "str list list \<Rightarrow> exn + str" where
  "first_transcript response =
     (case first_item response of Inl e \<Rightarrow> Inl e | Inr alternatives \<Rightarrow> first_item alternatives)"

definition speech_to_text_endpoint :: "providers \<Rightarrow> bytes \<Rightarrow> served" where
  "speech_to_text_endpoint p audio_data =
     \<lparr>reply = except_Exception
        (case transcribe_file p audio_data of
           Inl e \<Rightarrow> Inl e
         | Inr response \<Rightarrow>
             (case first_transcript response of
                Inl e \<Rightarrow> Inl e
              | Inr transcript \<Rightarrow> Inr [(''transcript'', JStr transcript), (''success'', JBool True)])),
      calls = [Transcribe_file audio_data]\<rparr>"

definition chat_system :: chat_message where
  "chat_system = \<lparr>role = ascii ''system'', content = ascii
     ''You are a helpful voice assistant. Give short, direct answers in 2-3 sentences maximum. Never repeat yourself.''\<rparr>"

definition user_message :: "str \<Rightarrow> chat_message" where
  "user_message c = \<lparr>role = ascii ''user'', content = c\<rparr>"

text \<open>
  \<open>request.conversation_history[-6:] if len(request.conversation_history) > 6
     else request.conversation_history\<close>
\<close>

definition recent_history :: "ChatRequest \<Rightarrow> chat_message list" where
  "recent_history request =
     (if length (conversation_history request) > 6
      then last_n 6 (conversation_history request)
      else conversation_history request)"

text \<open>The list \<open>messages\<close> after \<open>extend\<close> and \<open>append\<close>.\<close>

definition chat_messages :: "ChatRequest \<Rightarrow> chat_message list" where
  "chat_messages request = [chat_system] @ recent_history request @ [user_message (message request)]"

definition chat :: "providers \<Rightarrow> ChatRequest \<Rightarrow> served" where
  "chat p request =
     (let messages = chat_messages request in
      \<lparr>reply = except_Exception
         (case completions_create p messages of
            Inl e \<Rightarrow> Inl e
          | Inr completion \<Rightarrow>
              (case first_item completion of
                 Inl e \<Rightarrow> Inl e
               | Inr ai_response \<Rightarrow> Inr [(''response'', JStr ai_response), (''success'', JBool True)])),
       calls = [Completions_create messages]\<rparr>)"

definition text_to_speech_endpoint :: "providers \<Rightarrow> str \<Rightarrow> served" where
  "text_to_speech_endpoint p request_text =
     \<lparr>reply = except_Exception
        (case speak_save p request_text of
           Inl e \<Rightarrow> Inl e
         | Inr audio_bytes \<Rightarrow>
             Inr [(''audio'', JStr (b64encode p audio_bytes)),
                  (''mime_type'', JStr (ascii ''audio/mpeg'')),
                  (''success'', JBool True)]),
      calls = [Speak_save request_text]\<rparr>"

definition voice_system :: chat_message where
  "voice_system = \<lparr>role = ascii ''system'', content = ascii
     ''You are a helpful voice assistant. Give short, direct answers in 2-3 sentences. Never repeat yourself.''\<rparr>"

text \<open>Stage 2 of \<open>voice_bot\<close>, "Speech to Text": the provider call and \<open>user_text\<close> read from it.\<close>

definition transcribed :: "providers \<Rightarrow> bytes \<Rightarrow> exn + str" where
  "transcribed p audio_bytes =
     (case transcribe_file p audio_bytes of
        Inl e \<Rightarrow> Inl e
      | Inr stt_response \<Rightarrow> first_transcript stt_response)"

text \<open>
  \<open>voice_bot\<close>: the three stages in one \<open>try\<close> block. The first stage that raises ends the
  block, so the later providers are not called.
\<close>

definition voice_bot :: "providers \<Rightarrow> bytes \<Rightarrow> served" where
  "voice_bot p audio_bytes =
     (case transcribed p audio_bytes of
        Inl e \<Rightarrow> \<lparr>reply = except_Exception (Inl e), calls = [Transcribe_file audio_bytes]\<rparr>
      | Inr user_text \<Rightarrow>
          (let messages = [voice_system, user_message user_text] in
           case (case completions_create p messages of Inl e \<Rightarrow> Inl e
                 | Inr completion \<Rightarrow> first_item completion) of
             Inl e \<Rightarrow> \<lparr>reply = except_Exception (Inl e),
                       calls = [Transcribe_file audio_bytes, Completions_create messages]\<rparr>
           | Inr bot_text \<Rightarrow>
               \<lparr>reply = except_Exception
                  (case speak_save p bot_text of
                     Inl e \<Rightarrow> Inl e
                   | Inr bot_audio_bytes \<Rightarrow>
                       Inr [(''user_text'', JStr user_text),
                            (''bot_text'', JStr bot_text),
                            (''bot_audio'', JStr (b64encode p bot_audio_bytes)),
                            (''audio_mime'', JStr (ascii ''audio/mpeg'')),
                            (''success'', JBool True)]),
                calls = [Transcribe_file audio_bytes, Completions_create messages,
                         Speak_save bot_text]\<rparr>))"

text \<open>The four \<open>@app.post\<close> routes, and a request to each.\<close>

datatype request =
    Speech_to_text bytes
  | Chat ChatRequest
  | Text_to_speech str
  | Voice bytes

fun app :: "providers \<Rightarrow> request \<Rightarrow> served" where
  "app p (Speech_to_text audio_data) = speech_to_text_endpoint p audio_data"
| "app p (Chat req) = chat p req"
| "app p (Text_to_speech request_text) = text_to_speech_endpoint p request_text"
| "app p (Voice audio_bytes) = voice_bot p audio_bytes"



section \<open>The session controller (app.py)\<close>

text \<open>
  An assistant entry of \<open>st.session_state.messages\<close> has the extra key \<open>"audio"\<close>; a user
  entry has not (\<open>audio = None\<close>).
\<close>

record display_message = chat_message +
  audio :: "bytes option"

text \<open>The four keys of \<open>st.session_state\<close>; \<open>last_audio_bytes\<close> is \<open>None\<close> or a clip.\<close>

record session_state =
  conversation_history :: "chat_message list"
  messages :: "display_message list"
  processing :: bool
  last_audio_bytes :: "bytes option"

text \<open>"Initialize session state", lines 14 to 21.\<close>

definition init_state :: session_state where
  "init_state = \<lparr>conversation_history = [], messages = [], processing = False,
                 last_audio_bytes = None\<rparr>"

text \<open>
  What one script run does that can be seen from outside: the requests it posts to the
  service, the Streamlit status calls, the playback, and \<open>st.rerun()\<close>.
\<close>

datatype event =
    Post_speech_to_text bytes
  | Post_chat ChatRequest
  | Post_text_to_speech str
  | St_error str
  | St_warning str
  | St_success str
  | Autoplay_audio bytes
  | St_rerun

text \<open>
  A \<open>requests\<close> response: \<open>json_item r k\<close> is \<open>r.json()[k]\<close>, which raises when the body is
  not JSON or has no key \<open>k\<close>; the values the client reads are strings.
\<close>

record response =
  status_code :: nat
  response_text :: str
  json_item :: "string \<Rightarrow> exn + str"

text \<open>
  The world of one turn as the client sees it: \<open>requests.post\<close> to each of the three
  endpoints (raising, on a timeout or a connection error, or returning a response), and
  \<open>base64.b64decode\<close> of the standard library.
\<close>

record backend =
  post_speech_to_text :: "bytes \<Rightarrow> exn + response"
  post_chat :: "ChatRequest \<Rightarrow> exn + response"
  post_text_to_speech :: "str \<Rightarrow> exn + response"
  b64decode :: "str \<Rightarrow> exn + bytes"

definition speech_to_text :: "backend \<Rightarrow> bytes \<Rightarrow> str option \<times> event list" where
  "speech_to_text be audio_bytes =
     (case post_speech_to_text be audio_bytes of
        Inl e \<Rightarrow> (None, [Post_speech_to_text audio_bytes, St_error (ascii ''Error: '' @ e)])
      | Inr response \<Rightarrow>
          if status_code response = 200 then
            (case json_item response ''transcript'' of
               Inl e \<Rightarrow> (None, [Post_speech_to_text audio_bytes, St_error (ascii ''Error: '' @ e)])
             | Inr transcript \<Rightarrow> (Some transcript, [Post_speech_to_text audio_bytes]))
          else (None, [Post_speech_to_text audio_bytes,
                       St_error (ascii ''Speech-to-text error: '' @ response_text response)]))"

text \<open>The dictionary \<open>data\<close> of \<open>get_ai_response\<close>, lines 40 to 43.\<close>

definition chat_data :: "session_state \<Rightarrow> str \<Rightarrow> ChatRequest" where
  "chat_data s msg =
     \<lparr>message = msg, conversation_history = last_n 10 (session_state.conversation_history s)\<rparr>"

definition get_ai_response :: "backend \<Rightarrow> session_state \<Rightarrow> str \<Rightarrow> str option \<times> event list" where
  "get_ai_response be s msg =
     (let data = chat_data s msg in
      case post_chat be data of
        Inl e \<Rightarrow> (None, [Post_chat data, St_error (ascii ''Error: '' @ e)])
      | Inr response \<Rightarrow>
          if status_code response = 200 then
            (case json_item response ''response'' of
               Inl e \<Rightarrow> (None, [Post_chat data, St_error (ascii ''Error: '' @ e)])
             | Inr ai_response \<Rightarrow> (Some ai_response, [Post_chat data]))
          else (None, [Post_chat data, St_error (ascii ''Chat error: '' @ response_text response)]))"

definition text_to_speech :: "backend \<Rightarrow> str \<Rightarrow> bytes option \<times> event list" where
  "text_to_speech be txt =
     (case post_text_to_speech be txt of
        Inl e \<Rightarrow> (None, [Post_text_to_speech txt, St_error (ascii ''Error: '' @ e)])
      | Inr response \<Rightarrow>
          if status_code response = 200 then
            (case (case json_item response ''audio'' of Inl e \<Rightarrow> Inl e
                   | Inr result_audio \<Rightarrow> b64decode be result_audio) of
               Inl e \<Rightarrow> (None, [Post_text_to_speech txt, St_error (ascii ''Error: '' @ e)])
             | Inr audio_bytes \<Rightarrow> (Some audio_bytes, [Post_text_to_speech txt]))
          else (None, [Post_text_to_speech txt,
                       St_error (ascii ''Text-to-speech error: '' @ response_text response)]))"

text \<open>
  \<open>str.isspace\<close> on one code point, which is what \<open>str.strip()\<close> removes at both ends.
\<close>

definition isspace :: "nat \<Rightarrow> bool" where
  "isspace c = (c \<in> set [9, 10, 11, 12, 13, 28, 29, 30, 31, 32, 133, 160, 5760,
                          8192, 8193, 8194, 8195, 8196, 8197, 8198, 8199, 8200, 8201, 8202,
                          8232, 8233, 8239, 8287, 12288])"

definition strip :: "str \<Rightarrow> str" where
  "strip t = rev (dropWhile isspace (rev (dropWhile isspace t)))"

text \<open>
  The test \<open>x and x.strip()\<close> on an optional string: \<open>Some x\<close> where Python takes the
  branch, \<open>None\<close> where it takes the \<open>else\<close>.
\<close>

definition and_strip :: "str option \<Rightarrow> str option" where
  "and_strip x = (case x of None \<Rightarrow> None
                  | Some t \<Rightarrow> if t \<noteq> [] \<and> strip t \<noteq> [] then Some t else None)"

text \<open>The test \<open>if audio_data:\<close> on optional bytes: \<open>None\<close> and \<open>b""\<close> are false.\<close>

definition truthy_bytes :: "bytes option \<Rightarrow> bytes option" where
  "truthy_bytes x = (case x of None \<Rightarrow> None | Some b \<Rightarrow> if b \<noteq> [] then Some b else None)"

text \<open>What a block of the script leaves: the session state, its events, and whether it
  ended the run with \<open>st.rerun()\<close>.\<close>

record outcome =
  state :: session_state
  events :: "event list"
  rerun :: bool

text \<open>"Add user message": lines 176 to 177, and 230 to 231.\<close>

definition add_user_message :: "session_state \<Rightarrow> str \<Rightarrow> session_state" where
  "add_user_message s t =
     s\<lparr>messages := messages s @ [\<lparr>role = ascii ''user'', content = t, audio = None\<rparr>],
       conversation_history := session_state.conversation_history s @ [user_message t]\<rparr>"

text \<open>"Add assistant message": lines 190 to 198, and 244 to 252.\<close>

definition add_assistant_message :: "session_state \<Rightarrow> str \<Rightarrow> bytes \<Rightarrow> session_state" where
  "add_assistant_message s ai_response audio_data =
     s\<lparr>messages := messages s @
          [\<lparr>role = ascii ''assistant'', content = ai_response, audio = Some audio_data\<rparr>],
       conversation_history := session_state.conversation_history s @
          [\<lparr>role = ascii ''assistant'', content = ai_response\<rparr>]\<rparr>"

text \<open>
  "Get AI response" to the end of the turn: lines 180 to 213 of the voice block, and the
  same text at lines 234 to 267 of the text block.
\<close>

definition answer :: "backend \<Rightarrow> session_state \<Rightarrow> str \<Rightarrow> outcome" where
  "answer be s user_text =
     (case get_ai_response be s user_text of (r, ev1) \<Rightarrow>
        (case and_strip r of
           Some ai_response \<Rightarrow>
             (case text_to_speech be ai_response of (a, ev2) \<Rightarrow>
                (case truthy_bytes a of
                   Some audio_data \<Rightarrow>
                     \<lparr>state = (add_assistant_message s ai_response audio_data)\<lparr>processing := False\<rparr>,
                      events = ev1 @ ev2 @
                        [St_success ([9989] @ ascii '' Response generated!''),
                         Autoplay_audio audio_data, St_rerun],
                      rerun = True\<rparr>
                 | None \<Rightarrow>
                     \<lparr>state = s\<lparr>processing := False\<rparr>,
                      events = ev1 @ ev2 @ [St_error (ascii ''Failed to generate speech audio'')],
                      rerun = False\<rparr>))
         | None \<Rightarrow>
             \<lparr>state = s\<lparr>processing := False\<rparr>,
              events = ev1 @ [St_error (ascii ''Failed to get AI response'')],
              rerun = False\<rparr>))"

text \<open>Lines 163 to 167: the guard of the voice block and the two assignments that start a
  turn; \<open>None\<close> when the block is skipped.\<close>

definition begin_voice_turn :: "session_state \<Rightarrow> bytes option \<Rightarrow> (session_state \<times> bytes) option" where
  "begin_voice_turn s audio_bytes =
     (case truthy_bytes audio_bytes of
        None \<Rightarrow> None
      | Some a \<Rightarrow>
          if \<not> processing s then
            if last_audio_bytes s \<noteq> Some a
            then Some (s\<lparr>last_audio_bytes := Some a, processing := True\<rparr>, a)
            else None
          else None)"

text \<open>Lines 169 to 217: the turn itself, from the state that \<open>begin_voice_turn\<close> left.\<close>

definition voice_pipeline :: "backend \<Rightarrow> session_state \<Rightarrow> bytes \<Rightarrow> outcome" where
  "voice_pipeline be s audio_bytes =
     (case speech_to_text be audio_bytes of (t, ev0) \<Rightarrow>
        (case and_strip t of
           Some transcript \<Rightarrow>
             (let out = answer be (add_user_message s transcript) transcript in
              out\<lparr>events := ev0 @ [St_success ([9989] @ ascii '' You said: '' @ transcript)]
                              @ events out\<rparr>)
         | None \<Rightarrow>
             \<lparr>state = s\<lparr>processing := False, last_audio_bytes := None\<rparr>,
              events = ev0 @ [St_warning (ascii ''No speech detected. Please try again.'')],
              rerun = False\<rparr>))"

text \<open>"Voice input processing", lines 162 to 217.\<close>

definition voice_input_processing :: "backend \<Rightarrow> session_state \<Rightarrow> bytes option \<Rightarrow> outcome" where
  "voice_input_processing be s audio_bytes =
     (case begin_voice_turn s audio_bytes of
        None \<Rightarrow> \<lparr>state = s, events = [], rerun = False\<rparr>
      | Some (s1, a) \<Rightarrow> voice_pipeline be s1 a)"

text \<open>Lines 220 to 227: the text box is offered only while not processing, and a
  non-empty input starts a turn.\<close>

definition begin_text_turn :: "session_state \<Rightarrow> str option \<Rightarrow> (session_state \<times> str) option" where
  "begin_text_turn s chat_input =
     (let user_input = (if \<not> processing s then chat_input else None) in
      case user_input of
        None \<Rightarrow> None
      | Some u \<Rightarrow> if u \<noteq> [] then Some (s\<lparr>processing := True\<rparr>, u) else None)"

text \<open>"Text input", lines 219 to 267.\<close>

definition text_input_processing :: "backend \<Rightarrow> session_state \<Rightarrow> str option \<Rightarrow> outcome" where
  "text_input_processing be s chat_input =
     (case begin_text_turn s chat_input of
        None \<Rightarrow> \<lparr>state = s, events = [], rerun = False\<rparr>
      | Some (s1, user_input) \<Rightarrow> answer be (add_user_message s1 user_input) user_input)"

text \<open>
  What the widgets hand to one run of the script: whether "Clear Conversation" was
  clicked, the value of \<open>audio_recorder\<close> (which keeps returning the last recording on
  later runs) and the value of \<open>st.chat_input\<close>.
\<close>

record widgets =
  clear_clicked :: bool
  recorded :: "bytes option"
  typed :: "str option"

text \<open>
  One run of the script on a session whose state is initialised: the "Clear Conversation"
  button, the recorder, the voice block, then, unless the voice block ended the run with
  \<open>st.rerun()\<close>, the text block. The page layout, the rendering of the chat and the status
  request of the sidebar neither read nor write the session state and are left out. The
  voice turn and the text turn of one run each talk to the backend once per stage; the
  two may be answered differently, so each gets its own backend.
\<close>

definition script_run :: "backend \<Rightarrow> backend \<Rightarrow> session_state \<Rightarrow> widgets \<Rightarrow> outcome" where
  "script_run be_voice be_text s w =
     (if clear_clicked w then \<lparr>state = init_state, events = [St_rerun], rerun = True\<rparr>
      else
        (let audio_bytes = (if \<not> processing s then recorded w else None);
             v = voice_input_processing be_voice s audio_bytes
         in if rerun v then v
            else
              (let t = text_input_processing be_text (state v) (typed w)
               in t\<lparr>events := events v @ events t\<rparr>)))"

text \<open>The bodies of the requests to \<open>/chat\<close> among the events of a run.\<close>

fun posted_chats :: "event list \<Rightarrow> ChatRequest list" where
  "posted_chats [] = []"
| "posted_chats (Post_chat data # es) = data # posted_chats es"
| "posted_chats (e # es) = posted_chats es"

section \<open>Sample collaborators\<close>


definition ok_response :: "string \<Rightarrow> str \<Rightarrow> response" where
  "ok_response k v =
     \<lparr>status_code = 200, response_text = [],
      json_item = (\<lambda>k'. if k' = k then Inr v else Inl (ascii ''KeyError''))\<rparr>"

definition error_response :: response where
  "error_response =
     \<lparr>status_code = 500, response_text = ascii ''Internal Server Error'',
      json_item = (\<lambda>k. Inl (ascii ''JSONDecodeError''))\<rparr>"

text \<open>
  A backend that transcribes every clip as \<open>transcript\<close>, answers every chat with
  \<open>ai_response\<close>, and synthesises \<open>speech\<close>, or answers 500 to the synthesis when \<open>speech\<close>
  is \<open>None\<close>.
\<close>

definition sample_backend :: "str \<Rightarrow> str \<Rightarrow> bytes option \<Rightarrow> backend" where
  "sample_backend transcript ai_response speech =
     \<lparr>post_speech_to_text = (\<lambda>a. Inr (ok_response ''transcript'' transcript)),
      post_chat = (\<lambda>d. Inr (ok_response ''response'' ai_response)),
      post_text_to_speech =
        (\<lambda>t. case speech of None \<Rightarrow> Inr error_response
              | Some b \<Rightarrow> Inr (ok_response ''audio'' (ascii ''SUQz''))),
      b64decode = (\<lambda>t. case speech of None \<Rightarrow> Inl (ascii ''Incorrect padding'') | Some b \<Rightarrow> Inr b)\<rparr>"

section \<open>The orchestration service: what reaches the providers\<close>

lemma length_last_n: "length (last_n n xs) \<le> n"
  by (simp add: last_n_def)

lemma suffix_last_n: "suffix (last_n n xs) xs"
  by (simp add: last_n_def suffix_drop)



lemma length_recent_history: "length (recent_history request) \<le> 6"
  by (simp add: recent_history_def length_last_n)

lemma suffix_recent_history:
  "suffix (recent_history request) (ChatRequest.conversation_history request)"
  by (simp add: recent_history_def suffix_last_n)

lemma calls_chat: "calls (chat p request) = [Completions_create (chat_messages request)]"
  by (simp add: chat_def Let_def)

lemma posted_get_ai_response:
  "posted_chats (snd (get_ai_response be s msg)) = [chat_data s msg]"
  by (simp add: get_ai_response_def Let_def split: sum.splits)

text \<open>
  C8. Whatever the request to \<open>/chat\<close> holds, the endpoint calls the language model once,
  and the message list of that call starts with the same system instruction, the one
  that asks for short answers of two or three sentences without repetition.
\<close>

theorem chat_system_instruction_first:
  "calls (chat p request) = [Completions_create (chat_messages request)]
   \<and> chat_messages request = chat_system # recent_history request @ [user_message (message request)]
   \<and> role chat_system = ascii ''system''
   \<and> content chat_system = ascii
       ''You are a helpful voice assistant. Give short, direct answers in 2-3 sentences maximum. Never repeat yourself.''"
  by (simp add: calls_chat chat_messages_def chat_system_def)

text \<open>
  C1. The history that \<open>/chat\<close> places in the provider request, between the system
  instruction and the final user message, is a tail of the caller's history with at most
  6 entries, however many the caller sent. The client, in \<open>get_ai_response\<close>, posts a tail
  of its own history with at most 10 entries.
\<close>

theorem history_at_most_six_and_ten:
  "calls (chat p request) =
     [Completions_create ([chat_system] @ recent_history request @ [user_message (message request)])]
   \<and> length (recent_history request) \<le> 6
   \<and> suffix (recent_history request) (ChatRequest.conversation_history request)
   \<and> posted_chats (snd (get_ai_response be s msg)) = [chat_data s msg]
   \<and> length (ChatRequest.conversation_history (chat_data s msg)) \<le> 10
   \<and> suffix (ChatRequest.conversation_history (chat_data s msg))
        (session_state.conversation_history s)"
  by (simp add: calls_chat chat_messages_def length_recent_history suffix_recent_history
      posted_get_ai_response chat_data_def length_last_n suffix_last_n)


section \<open>The orchestration service: provider failures\<close>


text \<open>Nothing but a 200 or a 500 with an \<open>Error: ...\<close> detail leaves any of the four routes.\<close>

lemma reply_shape:
  "(case reply (app p req) of
      Ok_200 d \<Rightarrow> True
    | HTTPException st detail \<Rightarrow> st = 500 \<and> prefix (ascii ''Error: '') detail)"
  by (cases req)
     (auto simp: speech_to_text_endpoint_def chat_def text_to_speech_endpoint_def voice_bot_def
        transcribed_def except_Exception_def Let_def split: sum.splits)



section \<open>The session controller: turns\<close>

lemma strip_Nil_iff: "strip t = [] \<longleftrightarrow> (\<forall>c \<in> set t. isspace c)"
proof
  assume "strip t = []"
  then have "dropWhile isspace (rev (dropWhile isspace t)) = []"
    unfolding strip_def by (simp only: rev_is_Nil_conv)
  then have "\<forall>c \<in> set (rev (dropWhile isspace t)). isspace c"
    by (simp only: dropWhile_eq_Nil_conv)
  then have a: "\<forall>c \<in> set (dropWhile isspace t). isspace c"
    by (simp only: set_rev)
  have "dropWhile isspace t = []"
  proof (cases "dropWhile isspace t")
    case Nil then show ?thesis .
  next
    case (Cons x xs)
    then have "\<not> isspace x" by (metis hd_dropWhile list.sel(1) list.distinct(1))
    with a Cons show ?thesis by simp
  qed
  then show "\<forall>c \<in> set t. isspace c" by (simp only: dropWhile_eq_Nil_conv)
next
  assume "\<forall>c \<in> set t. isspace c"
  then have "dropWhile isspace t = []" by (simp only: dropWhile_eq_Nil_conv)
  then show "strip t = []"
    unfolding strip_def by (simp only: rev.simps dropWhile.simps)
qed

lemma and_strip_blank: "\<forall>c \<in> set t. isspace c \<Longrightarrow> and_strip (Some t) = None"
  by (simp add: and_strip_def strip_Nil_iff)

lemma and_strip_Some: "and_strip x = Some t \<Longrightarrow> x = Some t"
  by (auto simp: and_strip_def split: option.splits if_splits)

lemma truthy_bytes_Some: "truthy_bytes x = Some b \<longleftrightarrow> x = Some b \<and> b \<noteq> []"
  by (auto simp: truthy_bytes_def split: option.splits if_splits)

lemma begin_voice_turn_Some:
  "begin_voice_turn s audio_bytes = Some (s1, a) \<longleftrightarrow>
     audio_bytes = Some a \<and> a \<noteq> [] \<and> \<not> processing s \<and> last_audio_bytes s \<noteq> Some a
     \<and> s1 = s\<lparr>last_audio_bytes := Some a, processing := True\<rparr>"
  by (auto simp: begin_voice_turn_def truthy_bytes_def split: option.splits if_splits)

lemma begin_text_turn_Some:
  "begin_text_turn s chat_input = Some (s1, u) \<longleftrightarrow>
     chat_input = Some u \<and> u \<noteq> [] \<and> \<not> processing s \<and> s1 = s\<lparr>processing := True\<rparr>"
  by (auto simp: begin_text_turn_def Let_def split: option.splits if_splits)

lemma processing_answer: "\<not> processing (state (answer be s u))"
  by (simp add: answer_def split: prod.splits option.splits)

lemma processing_voice_pipeline: "\<not> processing (state (voice_pipeline be s a))"
  by (simp add: voice_pipeline_def Let_def processing_answer split: prod.splits option.splits)

lemma last_audio_answer: "last_audio_bytes (state (answer be s u)) = last_audio_bytes s"
  by (simp add: answer_def add_assistant_message_def split: prod.splits option.splits)

lemma answer_synthesis_failed:
  assumes "and_strip (fst (get_ai_response be s u)) = Some r"
      and "truthy_bytes (fst (text_to_speech be r)) = None"
  shows "answer be s u =
           \<lparr>state = s\<lparr>processing := False\<rparr>,
            events = snd (get_ai_response be s u) @ snd (text_to_speech be r)
                     @ [St_error (ascii ''Failed to generate speech audio'')],
            rerun = False\<rparr>"
  using assms by (simp add: answer_def case_prod_beta)

text \<open>
  C5. When a voice turn has started and the transcript that came back is empty or made of
  whitespace only, the turn ends with the warning "No speech detected. Please try again."
  after the transcription request alone: no chat or synthesis request is posted, and the
  display messages and the conversation history are what they were.
\<close>

theorem no_speech_detected:
  assumes "begin_voice_turn s audio_bytes = Some (s1, a)"
      and "fst (speech_to_text be a) = Some t"
      and "\<forall>c \<in> set t. isspace c"
  shows "events (voice_input_processing be s audio_bytes) =
           snd (speech_to_text be a) @ [St_warning (ascii ''No speech detected. Please try again.'')]
       \<and> messages (state (voice_input_processing be s audio_bytes)) = messages s
       \<and> session_state.conversation_history (state (voice_input_processing be s audio_bytes))
           = session_state.conversation_history s
       \<and> \<not> processing (state (voice_input_processing be s audio_bytes))
       \<and> \<not> rerun (voice_input_processing be s audio_bytes)"
proof -
  from assms(1) have s1: "s1 = s\<lparr>last_audio_bytes := Some a, processing := True\<rparr>"
    by (simp add: begin_voice_turn_Some)
  from assms(2,3) have "and_strip (fst (speech_to_text be a)) = None"
    by (simp add: and_strip_blank)
  with assms(1) s1 show ?thesis
    by (simp add: voice_input_processing_def voice_pipeline_def case_prod_beta)
qed

theorem no_speech_detected_witness:
  "begin_voice_turn init_state (Some [82, 73])
     = Some (init_state\<lparr>last_audio_bytes := Some [82, 73], processing := True\<rparr>, [82, 73])
   \<and> fst (speech_to_text (sample_backend [32, 9] (ascii ''yo'') None) [82, 73]) = Some [32, 9]
   \<and> isspace 32 \<and> isspace 9
   \<and> events (voice_input_processing (sample_backend [32, 9] (ascii ''yo'') None) init_state (Some [82, 73]))
       = [Post_speech_to_text [82, 73], St_warning (ascii ''No speech detected. Please try again.'')]
   \<and> messages (state (voice_input_processing (sample_backend [32, 9] (ascii ''yo'') None) init_state (Some [82, 73]))) = []"
  using no_speech_detected
    [of init_state "Some [82, 73]"
        "init_state\<lparr>last_audio_bytes := Some [82, 73], processing := True\<rparr>" "[82, 73]"
        "sample_backend [32, 9] (ascii ''yo'') None" "[32, 9]"]
  by (simp add: begin_voice_turn_def truthy_bytes_def init_state_def speech_to_text_def
      sample_backend_def ok_response_def isspace_def)

lemma state_text_synth_failed:
  assumes "begin_text_turn s chat_input = Some (s1, u)"
      and "and_strip (fst (get_ai_response be (add_user_message s1 u) u)) = Some r"
      and "truthy_bytes (fst (text_to_speech be r)) = None"
  shows "state (text_input_processing be s chat_input) = add_user_message s u"
proof -
  from assms(1) have s1: "s1 = s\<lparr>processing := True\<rparr>" and np: "\<not> processing s"
    by (simp_all add: begin_text_turn_Some)
  have "state (text_input_processing be s chat_input) = (add_user_message s1 u)\<lparr>processing := False\<rparr>"
    using assms by (simp add: text_input_processing_def answer_synthesis_failed)
  also have "\<dots> = add_user_message s u"
    using np by (simp add: s1 add_user_message_def)
  finally show ?thesis .
qed

lemma state_voice_synth_failed:
  assumes "begin_voice_turn s audio_bytes = Some (s1, a)"
      and "and_strip (fst (speech_to_text be a)) = Some t"
      and "and_strip (fst (get_ai_response be (add_user_message s1 t) t)) = Some r"
      and "truthy_bytes (fst (text_to_speech be r)) = None"
  shows "state (voice_input_processing be s audio_bytes) = (add_user_message s t)\<lparr>last_audio_bytes := Some a\<rparr>"
proof -
  from assms(1) have s1: "s1 = s\<lparr>last_audio_bytes := Some a, processing := True\<rparr>"
    and np: "\<not> processing s"
    by (simp_all add: begin_voice_turn_Some)
  have "state (voice_input_processing be s audio_bytes) = (add_user_message s1 t)\<lparr>processing := False\<rparr>"
    using assms by (simp add: voice_input_processing_def voice_pipeline_def case_prod_beta Let_def answer_synthesis_failed)
  also have "\<dots> = (add_user_message s t)\<lparr>last_audio_bytes := Some a\<rparr>"
    using np by (simp add: s1 add_user_message_def)
  finally show ?thesis .
qed

text \<open>
  C3, as the code has it. When the chat stage returned a non-blank response and the
  synthesis stage then failed (no audio, or empty audio), the assistant's text is in
  neither list. A text turn leaves the state it started from with the user turn appended
  to the display messages and to the conversation history, and nothing else changed. A
  voice turn leaves the same, and in addition the stored fingerprint \<open>last_audio_bytes\<close>
  holds the clip of the turn.
\<close>

theorem synthesis_failure_leaves_user_turn:
  "(begin_text_turn s chat_input = Some (s1, u)
      \<and> and_strip (fst (get_ai_response be (add_user_message s1 u) u)) = Some r
      \<and> truthy_bytes (fst (text_to_speech be r)) = None
    \<longrightarrow> state (text_input_processing be s chat_input) = add_user_message s u)
   \<and> (begin_voice_turn s' audio_bytes = Some (s1', a)
      \<and> and_strip (fst (speech_to_text be' a)) = Some t
      \<and> and_strip (fst (get_ai_response be' (add_user_message s1' t) t)) = Some r'
      \<and> truthy_bytes (fst (text_to_speech be' r')) = None
    \<longrightarrow> state (voice_input_processing be' s' audio_bytes)
          = (add_user_message s' t)\<lparr>last_audio_bytes := Some a\<rparr>)"
  using state_text_synth_failed state_voice_synth_failed by blast

theorem synthesis_failure_leaves_user_turn_witness:
  "begin_text_turn init_state (Some (ascii ''hi'')) = Some (init_state\<lparr>processing := True\<rparr>, ascii ''hi'')
   \<and> and_strip (fst (get_ai_response (sample_backend [] (ascii ''yo'') None)
         (add_user_message (init_state\<lparr>processing := True\<rparr>) (ascii ''hi'')) (ascii ''hi'')))
       = Some (ascii ''yo'')
   \<and> truthy_bytes (fst (text_to_speech (sample_backend [] (ascii ''yo'') None) (ascii ''yo''))) = None
   \<and> state (text_input_processing (sample_backend [] (ascii ''yo'') None) init_state (Some (ascii ''hi'')))
       = add_user_message init_state (ascii ''hi'')
   \<and> begin_voice_turn init_state (Some [82, 73])
       = Some (init_state\<lparr>last_audio_bytes := Some [82, 73], processing := True\<rparr>, [82, 73])
   \<and> and_strip (fst (speech_to_text (sample_backend (ascii ''hi'') (ascii ''yo'') None) [82, 73]))
       = Some (ascii ''hi'')
   \<and> and_strip (fst (get_ai_response (sample_backend (ascii ''hi'') (ascii ''yo'') None)
         (add_user_message (init_state\<lparr>last_audio_bytes := Some [82, 73], processing := True\<rparr>)
            (ascii ''hi'')) (ascii ''hi''))) = Some (ascii ''yo'')
   \<and> truthy_bytes (fst (text_to_speech (sample_backend (ascii ''hi'') (ascii ''yo'') None) (ascii ''yo'')))
       = None
   \<and> state (voice_input_processing (sample_backend (ascii ''hi'') (ascii ''yo'') None) init_state
         (Some [82, 73]))
       = (add_user_message init_state (ascii ''hi''))\<lparr>last_audio_bytes := Some [82, 73]\<rparr>"
proof -
  have yo: "and_strip (Some (ascii ''yo'')) = Some (ascii ''yo'')"
    and hi: "and_strip (Some (ascii ''hi'')) = Some (ascii ''hi'')"
    by (simp_all add: and_strip_def strip_def isspace_def ascii_def)
  have t: "begin_text_turn init_state (Some (ascii ''hi''))
             = Some (init_state\<lparr>processing := True\<rparr>, ascii ''hi'')"
    by (simp add: begin_text_turn_def init_state_def ascii_def)
  have v: "begin_voice_turn init_state (Some [82, 73])
       = Some (init_state\<lparr>last_audio_bytes := Some [82, 73], processing := True\<rparr>, [82, 73])"
    by (simp add: begin_voice_turn_def truthy_bytes_def init_state_def)
  have c: "fst (get_ai_response (sample_backend tr (ascii ''yo'') None) s0 m) = Some (ascii ''yo'')"
    for tr s0 m
    by (simp add: get_ai_response_def sample_backend_def ok_response_def Let_def)
  have a: "truthy_bytes (fst (text_to_speech (sample_backend tr (ascii ''yo'') None) (ascii ''yo''))) = None"
    for tr
    by (simp add: text_to_speech_def sample_backend_def error_response_def truthy_bytes_def)
  have st: "fst (speech_to_text (sample_backend (ascii ''hi'') (ascii ''yo'') None) [82, 73])
              = Some (ascii ''hi'')"
    by (simp add: speech_to_text_def sample_backend_def ok_response_def)
  show ?thesis
    using synthesis_failure_leaves_user_turn
      [of init_state "Some (ascii ''hi'')" "init_state\<lparr>processing := True\<rparr>" "ascii ''hi''"
          "sample_backend [] (ascii ''yo'') None" "ascii ''yo''"
          init_state "Some [82, 73]"
          "init_state\<lparr>last_audio_bytes := Some [82, 73], processing := True\<rparr>" "[82, 73]"
          "sample_backend (ascii ''hi'') (ascii ''yo'') None" "ascii ''hi''" "ascii ''yo''"]
    by (simp only: t v c a st yo hi simp_thms)
qed

text \<open>
  C3 as stated fails for a voice turn: from the initial state, with a clip transcribed as
  "hi", answered "yo" and a failed synthesis, the state left is not the initial state with
  the user turn appended, because \<open>last_audio_bytes\<close> went from \<open>None\<close> to the clip.
\<close>

theorem synthesis_failure_counterexample:
  "begin_voice_turn init_state (Some [82, 73])
     = Some (init_state\<lparr>last_audio_bytes := Some [82, 73], processing := True\<rparr>, [82, 73])
   \<and> and_strip (fst (speech_to_text (sample_backend (ascii ''hi'') (ascii ''yo'') None) [82, 73]))
       = Some (ascii ''hi'')
   \<and> and_strip (fst (get_ai_response (sample_backend (ascii ''hi'') (ascii ''yo'') None)
         (add_user_message (init_state\<lparr>last_audio_bytes := Some [82, 73], processing := True\<rparr>)
            (ascii ''hi'')) (ascii ''hi''))) = Some (ascii ''yo'')
   \<and> truthy_bytes (fst (text_to_speech (sample_backend (ascii ''hi'') (ascii ''yo'') None) (ascii ''yo'')))
       = None
   \<and> state (voice_input_processing (sample_backend (ascii ''hi'') (ascii ''yo'') None) init_state
         (Some [82, 73])) \<noteq> add_user_message init_state (ascii ''hi'')
   \<and> last_audio_bytes init_state = None
   \<and> last_audio_bytes (state (voice_input_processing (sample_backend (ascii ''hi'') (ascii ''yo'') None)
         init_state (Some [82, 73]))) = Some [82, 73]"
  by (simp add: begin_voice_turn_def truthy_bytes_def init_state_def speech_to_text_def
      get_ai_response_def text_to_speech_def sample_backend_def ok_response_def error_response_def
      and_strip_def strip_def isspace_def ascii_def voice_input_processing_def voice_pipeline_def
      answer_def add_user_message_def Let_def chat_data_def)

lemma no_warning_speech_to_text: "St_warning w \<notin> set (snd (speech_to_text be a))"
  by (simp add: speech_to_text_def split: sum.splits)

lemma no_warning_get_ai_response: "St_warning w \<notin> set (snd (get_ai_response be s u))"
  by (simp add: get_ai_response_def Let_def split: sum.splits)

lemma no_warning_text_to_speech: "St_warning w \<notin> set (snd (text_to_speech be r))"
  by (simp add: text_to_speech_def split: sum.splits)

lemma no_warning_answer: "St_warning w \<notin> set (events (answer be s u))"
  by (simp add: answer_def case_prod_beta no_warning_get_ai_response no_warning_text_to_speech
      split: option.splits)

lemma script_run_voice_only:
  "script_run bv bt s \<lparr>clear_clicked = False, recorded = x, typed = None\<rparr>
     = voice_input_processing bv s (if \<not> processing s then x else None)"
  by (simp add: script_run_def Let_def text_input_processing_def begin_text_turn_def)

lemma no_warning_keeps_fingerprint:
  assumes "St_warning (ascii ''No speech detected. Please try again.'')
             \<notin> set (events (voice_input_processing be s x))"
  shows "begin_voice_turn (state (voice_input_processing be s x)) x = None"
proof (cases "begin_voice_turn s x")
  case None
  then show ?thesis by (simp add: voice_input_processing_def)
next
  case (Some p)
  obtain s1 a where p: "p = (s1, a)" by (cases p)
  with Some have b: "x = Some a" "a \<noteq> []" "s1 = s\<lparr>last_audio_bytes := Some a, processing := True\<rparr>"
    by (simp_all add: begin_voice_turn_Some)
  show ?thesis
  proof (cases "and_strip (fst (speech_to_text be a))")
    case None
    with Some p assms show ?thesis
      by (simp add: voice_input_processing_def voice_pipeline_def case_prod_beta)
  next
    case (Some t)
    have "last_audio_bytes (state (voice_input_processing be s x)) = Some a"
      using \<open>begin_voice_turn s x = Some p\<close> p Some b
      by (simp add: voice_input_processing_def voice_pipeline_def case_prod_beta Let_def
          last_audio_answer add_user_message_def)
    with b show ?thesis by (simp add: begin_voice_turn_def truthy_bytes_def)
  qed
qed

lemma processing_voice_input:
  "\<not> processing s \<Longrightarrow> \<not> processing (state (voice_input_processing be s x))"
  by (simp add: voice_input_processing_def processing_voice_pipeline split: option.splits)

lemma voice_input_skipped:
  "begin_voice_turn s x = None \<Longrightarrow>
   voice_input_processing be s x = \<lparr>state = s, events = [], rerun = False\<rparr>"
  by (simp add: voice_input_processing_def)

text \<open>
  C4, as the code has it. A run of the script gets a clip from the recorder and nothing
  else. Provided that run did not end in "No speech detected", the next run with the
  byte-identical clip posts nothing, shows nothing and leaves the session state as it
  was, whatever the backend would have answered.
\<close>

theorem identical_clip_not_reprocessed:
  assumes "St_warning (ascii ''No speech detected. Please try again.'')
             \<notin> set (events (script_run bv bt s \<lparr>clear_clicked = False, recorded = Some a, typed = None\<rparr>))"
  shows "script_run bv' bt' (state (script_run bv bt s \<lparr>clear_clicked = False, recorded = Some a, typed = None\<rparr>))
             \<lparr>clear_clicked = False, recorded = Some a, typed = None\<rparr>
         = \<lparr>state = state (script_run bv bt s \<lparr>clear_clicked = False, recorded = Some a, typed = None\<rparr>),
            events = [], rerun = False\<rparr>"
proof (cases "processing s")
  case True
  then show ?thesis
    by (simp add: script_run_voice_only voice_input_processing_def begin_voice_turn_def truthy_bytes_def)
next
  case False
  let ?out = "voice_input_processing bv s (Some a)"
  from False assms have "begin_voice_turn (state ?out) (Some a) = None"
    by (simp add: script_run_voice_only no_warning_keeps_fingerprint)
  then have "voice_input_processing bv' (state ?out) (Some a)
               = \<lparr>state = state ?out, events = [], rerun = False\<rparr>"
    by (rule voice_input_skipped)
  moreover from False have "\<not> processing (state ?out)"
    by (rule processing_voice_input)
  ultimately show ?thesis
    using False by (simp add: script_run_voice_only)
qed

theorem identical_clip_not_reprocessed_witness:
  "St_warning (ascii ''No speech detected. Please try again.'')
     \<notin> set (events (script_run (sample_backend (ascii ''hi'') (ascii ''yo'') (Some [73, 68, 51]))
                 (sample_backend (ascii ''hi'') (ascii ''yo'') (Some [73, 68, 51])) init_state
                 \<lparr>clear_clicked = False, recorded = Some [82, 73], typed = None\<rparr>))
   \<and> script_run (sample_backend [] [] None) (sample_backend [] [] None)
        (state (script_run (sample_backend (ascii ''hi'') (ascii ''yo'') (Some [73, 68, 51]))
                 (sample_backend (ascii ''hi'') (ascii ''yo'') (Some [73, 68, 51])) init_state
                 \<lparr>clear_clicked = False, recorded = Some [82, 73], typed = None\<rparr>))
        \<lparr>clear_clicked = False, recorded = Some [82, 73], typed = None\<rparr>
     = \<lparr>state = state (script_run (sample_backend (ascii ''hi'') (ascii ''yo'') (Some [73, 68, 51]))
                 (sample_backend (ascii ''hi'') (ascii ''yo'') (Some [73, 68, 51])) init_state
                 \<lparr>clear_clicked = False, recorded = Some [82, 73], typed = None\<rparr>),
        events = [], rerun = False\<rparr>"
proof -
  have hi: "and_strip (Some (ascii ''hi'')) = Some (ascii ''hi'')"
    by (simp add: and_strip_def strip_def isspace_def ascii_def)
  have h: "St_warning (ascii ''No speech detected. Please try again.'')
     \<notin> set (events (script_run (sample_backend (ascii ''hi'') (ascii ''yo'') (Some [73, 68, 51]))
                 (sample_backend (ascii ''hi'') (ascii ''yo'') (Some [73, 68, 51])) init_state
                 \<lparr>clear_clicked = False, recorded = Some [82, 73], typed = None\<rparr>))"
    by (simp add: script_run_voice_only init_state_def voice_input_processing_def
        begin_voice_turn_def truthy_bytes_def voice_pipeline_def speech_to_text_def
        sample_backend_def ok_response_def hi Let_def no_warning_answer)
  from h identical_clip_not_reprocessed [OF h, of "sample_backend [] [] None" "sample_backend [] [] None"]
  show ?thesis by (rule conjI)
qed

text \<open>
  C4 as stated fails after a silent clip: the first run resets \<open>last_audio_bytes\<close> to
  \<open>None\<close> in the "No speech detected" branch, so the second run with the same bytes
  posts the clip to the transcription endpoint again.
\<close>

theorem identical_clip_counterexample:
  "events (script_run (sample_backend [] (ascii ''yo'') None) (sample_backend [] (ascii ''yo'') None)
      init_state \<lparr>clear_clicked = False, recorded = Some [82, 73], typed = None\<rparr>)
   = [Post_speech_to_text [82, 73], St_warning (ascii ''No speech detected. Please try again.'')]
   \<and> events (script_run (sample_backend [] (ascii ''yo'') None) (sample_backend [] (ascii ''yo'') None)
      (state (script_run (sample_backend [] (ascii ''yo'') None) (sample_backend [] (ascii ''yo'') None)
                init_state \<lparr>clear_clicked = False, recorded = Some [82, 73], typed = None\<rparr>))
      \<lparr>clear_clicked = False, recorded = Some [82, 73], typed = None\<rparr>)
   = [Post_speech_to_text [82, 73], St_warning (ascii ''No speech detected. Please try again.'')]"
  by (simp add: script_run_def Let_def text_input_processing_def begin_text_turn_def
      begin_voice_turn_def truthy_bytes_def init_state_def speech_to_text_def
      sample_backend_def ok_response_def and_strip_def voice_input_processing_def voice_pipeline_def)

text \<open>
  C10. A voice turn that starts stores the new clip in \<open>last_audio_bytes\<close> before the
  pipeline runs. After the pipeline the fingerprint is \<open>None\<close> exactly when the
  transcript test failed, which is exactly when "No speech detected" was shown; on
  success, on a failed chat and on a failed synthesis it is still the clip. So the same
  bytes are skipped by the guard after those three outcomes and start a turn again after
  "No speech detected".
\<close>

theorem fingerprint_after_voice_turn:
  assumes "begin_voice_turn s audio_bytes = Some (s1, a)"
  shows "last_audio_bytes s1 = Some a
       \<and> voice_input_processing be s audio_bytes = voice_pipeline be s1 a
       \<and> last_audio_bytes (state (voice_pipeline be s1 a))
           = (if and_strip (fst (speech_to_text be a)) = None then None else Some a)
       \<and> (St_warning (ascii ''No speech detected. Please try again.'')
              \<in> set (events (voice_pipeline be s1 a))
            \<longleftrightarrow> and_strip (fst (speech_to_text be a)) = None)
       \<and> (begin_voice_turn (state (voice_pipeline be s1 a)) (Some a) = None
            \<longleftrightarrow> and_strip (fst (speech_to_text be a)) \<noteq> None)"
proof -
  from assms have b: "a \<noteq> []" "s1 = s\<lparr>last_audio_bytes := Some a, processing := True\<rparr>"
    by (simp_all add: begin_voice_turn_Some)
  have np: "\<not> processing (state (voice_pipeline be s1 a))"
    by (rule processing_voice_pipeline)
  have fp: "last_audio_bytes (state (voice_pipeline be s1 a))
           = (if and_strip (fst (speech_to_text be a)) = None then None else Some a)"
    by (auto simp: voice_pipeline_def case_prod_beta Let_def last_audio_answer add_user_message_def b)
  have ev: "St_warning (ascii ''No speech detected. Please try again.'')
              \<in> set (events (voice_pipeline be s1 a))
            \<longleftrightarrow> and_strip (fst (speech_to_text be a)) = None"
  proof (cases "and_strip (fst (speech_to_text be a))")
    case None
    then show ?thesis by (simp add: voice_pipeline_def case_prod_beta)
  next
    case (Some t)
    then show ?thesis
      by (simp add: voice_pipeline_def case_prod_beta Let_def no_warning_answer
          no_warning_speech_to_text)
  qed
  have re: "begin_voice_turn (state (voice_pipeline be s1 a)) (Some a) = None
            \<longleftrightarrow> and_strip (fst (speech_to_text be a)) \<noteq> None"
    using np b(1) by (auto simp: begin_voice_turn_def truthy_bytes_def fp)
  from assms b fp ev re show ?thesis
    by (simp add: voice_input_processing_def)
qed

theorem fingerprint_after_voice_turn_witness:
  "begin_voice_turn init_state (Some [82, 73])
     = Some (init_state\<lparr>last_audio_bytes := Some [82, 73], processing := True\<rparr>, [82, 73])
   \<and> last_audio_bytes (state (voice_pipeline (sample_backend [32] (ascii ''yo'') None)
         (init_state\<lparr>last_audio_bytes := Some [82, 73], processing := True\<rparr>) [82, 73])) = None
   \<and> begin_voice_turn (state (voice_pipeline (sample_backend [32] (ascii ''yo'') None)
         (init_state\<lparr>last_audio_bytes := Some [82, 73], processing := True\<rparr>) [82, 73]))
        (Some [82, 73]) \<noteq> None
   \<and> last_audio_bytes (state (voice_pipeline (sample_backend (ascii ''hi'') (ascii ''yo'') None)
         (init_state\<lparr>last_audio_bytes := Some [82, 73], processing := True\<rparr>) [82, 73]))
       = Some [82, 73]
   \<and> begin_voice_turn (state (voice_pipeline (sample_backend (ascii ''hi'') (ascii ''yo'') None)
         (init_state\<lparr>last_audio_bytes := Some [82, 73], processing := True\<rparr>) [82, 73]))
        (Some [82, 73]) = None"
proof -
  have v: "begin_voice_turn init_state (Some [82, 73])
       = Some (init_state\<lparr>last_audio_bytes := Some [82, 73], processing := True\<rparr>, [82, 73])"
    by (simp add: begin_voice_turn_def truthy_bytes_def init_state_def)
  have blank: "and_strip (fst (speech_to_text (sample_backend [32] (ascii ''yo'') None) [82, 73])) = None"
    by (simp add: speech_to_text_def sample_backend_def ok_response_def and_strip_def strip_def
        isspace_def)
  have hi: "and_strip (fst (speech_to_text (sample_backend (ascii ''hi'') (ascii ''yo'') None) [82, 73]))
              = Some (ascii ''hi'')"
    by (simp add: speech_to_text_def sample_backend_def ok_response_def and_strip_def strip_def
        isspace_def ascii_def)
  show ?thesis
    using v fingerprint_after_voice_turn [OF v, of "sample_backend [32] (ascii ''yo'') None"]
      fingerprint_after_voice_turn [OF v, of "sample_backend (ascii ''hi'') (ascii ''yo'') None"]
    by (simp only: blank hi simp_thms if_True if_False option.distinct)
qed












end
